theory Spec2Isabelle
  imports Main "HOL-Library.Sublist"
begin

section \<open>JavaScript values\<close>

text \<open>
  The values the job model handles: what the database driver puts into a row, what a
  test or a route passes as an argument, and what a JSON body holds as a field.
  Numbers are the integers (a salary, an id); a decimal such as an equity arrives from
  the driver as text, as the rows of the tests show (\<open>equity: '0.01'\<close>).
\<close>

datatype jsval = Undefined | Null | Bool bool | Num int | Str string

text \<open>ToBoolean, the test an \<open>if (x)\<close> makes.\<close>

fun truthy :: "jsval \<Rightarrow> bool" where
  "truthy Undefined = False"
| "truthy Null = False"
| "truthy (Bool b) = b"
| "truthy (Num n) = (n \<noteq> 0)"
| "truthy (Str s) = (s \<noteq> [])"

text \<open>
  Strict inequality \<open>a !== b\<close>: on these values two operands are strictly equal when
  they have the same type and the same value, so a text is never strictly equal to a
  number.
\<close>

definition strict_neq :: "jsval \<Rightarrow> jsval \<Rightarrow> bool" where
  "strict_neq a b = (a \<noteq> b)"

subsection \<open>Strings\<close>

text \<open>
  \<open>toLowerCase\<close> on text of the ASCII range: the letters A to Z move to a to z and
  every other character stays.
\<close>

definition lowerChar :: "char \<Rightarrow> char" where
  "lowerChar c =
     (case map_of (zip ''ABCDEFGHIJKLMNOPQRSTUVWXYZ'' ''abcdefghijklmnopqrstuvwxyz'') c of
        Some d \<Rightarrow> d
      | None \<Rightarrow> c)"

definition toLowerCase :: "string \<Rightarrow> string" where
  "toLowerCase s = map lowerChar s"

text \<open>\<open>s.startsWith(t)\<close> and \<open>s.includes(t)\<close> (here \<open>includes_str\<close>): the search tries every start position.\<close>

fun startsWith :: "string \<Rightarrow> string \<Rightarrow> bool" where
  "startsWith s [] = True"
| "startsWith [] (d # t) = False"
| "startsWith (c # s) (d # t) = (c = d \<and> startsWith s t)"

fun includes_str :: "string \<Rightarrow> string \<Rightarrow> bool" where
  "includes_str [] t = (t = [])"
| "includes_str (c # s) t = (startsWith (c # s) t \<or> includes_str s t)"

section \<open>The job model\<close>

text \<open>
  A row of the jobs table as the driver hands it over: the id and the salary are
  numbers, the title and the company handle are text. The equity, a NUMERIC column,
  arrives as text (or null); it is kept as a JavaScript value, since findAll compares
  it with a number.
\<close>

record job =
  id' :: int
  title :: string
  salary :: int
  equity :: jsval
  company_handle :: string

subsection \<open>Job.findAll\<close>

text \<open>
  \<open>rows\<close> is \<open>jobsRes.rows\<close>, the answer of the SELECT (ordered by title by the
  database). The three arguments are optional: \<open>None\<close> is \<open>undefined\<close>. A title is
  text, a minimum salary a number and the equity flag a boolean, as the tests of the
  model pass them. Each \<open>if\<close> of the source tests its argument for truthiness, so an
  empty title, a minimum of zero and a flag that is false leave the list as it is.
\<close>

definition findAll :: "job list \<Rightarrow> string option \<Rightarrow> int option \<Rightarrow> bool option \<Rightarrow> job list" where
  "findAll rows title_arg minSalary hasEquity =
     (let jobs = rows;
          jobs = (case title_arg of
                    None \<Rightarrow> jobs
                  | Some t \<Rightarrow>
                      if truthy (Str t)
                      then filter (\<lambda>job. includes_str (toLowerCase (title job)) (toLowerCase t)) jobs
                      else jobs);
          jobs = (case minSalary of
                    None \<Rightarrow> jobs
                  | Some m \<Rightarrow>
                      if truthy (Num m)
                      then filter (\<lambda>job. salary job \<ge> m) jobs
                      else jobs);
          jobs = (case hasEquity of
                    None \<Rightarrow> jobs
                  | Some h \<Rightarrow>
                      if truthy (Bool h)
                      then filter (\<lambda>job. strict_neq (equity job) (Num 0)) jobs
                      else jobs)
      in jobs)"

text \<open>
  What each \<open>if\<close> block of findAll asks of a job, for the statements below: an absent
  or falsy argument asks nothing.
\<close>

definition titleKeeps :: "string option \<Rightarrow> job \<Rightarrow> bool" where
  "titleKeeps t job =
     (case t of
        None \<Rightarrow> True
      | Some x \<Rightarrow> if truthy (Str x) then includes_str (toLowerCase (title job)) (toLowerCase x)
                  else True)"

definition salaryKeeps :: "int option \<Rightarrow> job \<Rightarrow> bool" where
  "salaryKeeps m job =
     (case m of None \<Rightarrow> True | Some n \<Rightarrow> if truthy (Num n) then salary job \<ge> n else True)"

definition equityKeeps :: "bool option \<Rightarrow> job \<Rightarrow> bool" where
  "equityKeeps h job =
     (case h of
        None \<Rightarrow> True
      | Some b \<Rightarrow> if truthy (Bool b) then strict_neq (equity job) (Num 0) else True)"

subsection \<open>The rows of the model's tests\<close>

text \<open>
  The three jobs the tests of the model find in the table (the ids are the database's;
  1, 2 and 3 stand for them), and a job whose equity column holds zero, which the
  driver hands over as the text \<open>'0'\<close>.
\<close>

definition testJob1 :: job where
  "testJob1 = \<lparr>id' = 1, title = ''title1'', salary = 100000, equity = Str ''0.01'',
     company_handle = ''c1''\<rparr>"

definition testJob2 :: job where
  "testJob2 = \<lparr>id' = 2, title = ''title2'', salary = 200000, equity = Str ''0.02'',
     company_handle = ''c2''\<rparr>"

definition testJob3 :: job where
  "testJob3 = \<lparr>id' = 3, title = ''title2'', salary = 300000, equity = Str ''0.03'',
     company_handle = ''c3''\<rparr>"

definition noEquityJob :: job where
  "noEquityJob = \<lparr>id' = 4, title = ''title4'', salary = 400000, equity = Str ''0'',
     company_handle = ''c1''\<rparr>"

definition negativeJob :: job where
  "negativeJob = \<lparr>id' = 5, title = ''title5'', salary = - 1, equity = Str ''0.05'',
     company_handle = ''c1''\<rparr>"

section \<open>The partial-update helper\<close>

subsection \<open>Errors\<close>

text \<open>
  The two errors the model throws (the spec's InvalidArgument and NotFound), and a
  failure of the database, which passes through the model unchanged.
\<close>

datatype error = BadRequestError string | NotFoundError string | DbFailure string

subsection \<open>Numbers and values as text\<close>

text \<open>What a template literal makes of a number and of the other values.\<close>

definition digitChar :: "nat \<Rightarrow> char" where
  "digitChar d = ''0123456789'' ! d"

fun show_nat :: "nat \<Rightarrow> string" where
  "show_nat n = (if n < 10 then [digitChar n] else show_nat (n div 10) @ [digitChar (n mod 10)])"

declare show_nat.simps [simp del]

fun js_toString :: "jsval \<Rightarrow> string" where
  "js_toString Undefined = ''undefined''"
| "js_toString Null = ''null''"
| "js_toString (Bool b) = (if b then ''true'' else ''false'')"
| "js_toString (Num n) = (if n < 0 then ''-'' @ show_nat (nat (- n)) else show_nat (nat n))"
| "js_toString (Str s) = s"

subsection \<open>sqlForPartialUpdate\<close>

text \<open>
  A payload is a JavaScript object: its keys in their order, each once, with their
  values. A column map gives some keys another column name.
\<close>

type_synonym payload = "(string \<times> jsval) list"

type_synonym columnMap = "string \<rightharpoonup> string"

record setClause =
  setCols :: string
  values' :: "jsval list"

definition dquote :: char where
  "dquote = CHR 0x22"

text \<open>\<open>cols.join(sep)\<close>.\<close>

fun joinStrings :: "string \<Rightarrow> string list \<Rightarrow> string" where
  "joinStrings sep [] = []"
| "joinStrings sep [x] = x"
| "joinStrings sep (x # y # zs) = x @ sep @ joinStrings sep (y # zs)"

text \<open>
  Modelled from the spec: \<open>helpers/sql.js\<close>, which holds \<open>sqlForPartialUpdate\<close> (the
  spec's \<open>buildSetClause\<close>), is not among the sources; its test and its caller
  \<open>Job.update\<close> are. The definitions follow section 4.1 of the spec: an empty payload
  fails before anything is built; each key, in the payload's order, gives the fragment
  \<open>"column"=$n\<close>, where the column is the column map's entry for the key, or the key
  itself when the map has none, and \<open>n\<close> counts from 1; the fragments are joined by a
  comma and a space; the values come back in the order of their keys. The error is the
  one the tests name: a BadRequestError whose message is \<open>No data\<close>. Quoting a column
  is putting it between double quotes, as the spec's fragment and the test's
  \<open>"firstName"=$1\<close> show; neither names an escape for a double quote inside a column
  name, and the model has none.
\<close>

definition columnName :: "columnMap \<Rightarrow> string \<Rightarrow> string" where
  "columnName jsToSql colName = (case jsToSql colName of Some c \<Rightarrow> c | None \<Rightarrow> colName)"

definition fragment :: "columnMap \<Rightarrow> string \<Rightarrow> nat \<Rightarrow> string" where
  "fragment jsToSql colName idx =
     [dquote] @ columnName jsToSql colName @ [dquote] @ ''=$'' @ show_nat (idx + 1)"

fun fragments :: "columnMap \<Rightarrow> string list \<Rightarrow> nat \<Rightarrow> string list" where
  "fragments jsToSql [] idx = []"
| "fragments jsToSql (colName # keys) idx =
     fragment jsToSql colName idx # fragments jsToSql keys (idx + 1)"

definition sqlForPartialUpdate :: "payload \<Rightarrow> columnMap \<Rightarrow> error + setClause" where
  "sqlForPartialUpdate dataToUpdate jsToSql =
     (let keys = map fst dataToUpdate in
      if length keys = 0 then Inl (BadRequestError ''No data'')
      else Inr \<lparr>setCols = joinStrings '', '' (fragments jsToSql keys 0),
                values' = map snd dataToUpdate\<rparr>)"

section \<open>Job.update\<close>

text \<open>\<open>data.key\<close> and \<open>delete data.key\<close> on a payload.\<close>

definition js_get :: "payload \<Rightarrow> string \<Rightarrow> jsval" where
  "js_get obj key = (case map_of obj key of None \<Rightarrow> Undefined | Some v \<Rightarrow> v)"

definition js_delete :: "string \<Rightarrow> payload \<Rightarrow> payload" where
  "js_delete key obj = filter (\<lambda>(k, v). k \<noteq> key) obj"

text \<open>
  The database is a parameter: \<open>db.query(text, params)\<close> answers a statement and its
  bound values with rows or fails, and may change the store \<open>'s\<close> it keeps.
\<close>

type_synonym 's db = "string \<Rightarrow> jsval list \<Rightarrow> 's \<Rightarrow> (string + job list) \<times> 's"

text \<open>
  The first lines of \<open>Job.update\<close>: an id and a company_handle with a truthy value
  are deleted from the caller's object.
\<close>

definition deleteIdAndHandle :: "payload \<Rightarrow> payload" where
  "deleteIdAndHandle data =
     (let data = (if truthy (js_get data ''id'') then js_delete ''id'' data else data);
          data = (if truthy (js_get data ''company_handle'')
                  then js_delete ''company_handle'' data else data)
      in data)"

text \<open>
  The statement \<open>querySql\<close>, as a function of the two holes of its template; the line
  breaks and indentation of the template are written as single spaces.
\<close>

definition querySql :: "string \<Rightarrow> string \<Rightarrow> string" where
  "querySql cols IDVarIdx =
     ''UPDATE jobs SET '' @ cols @ '' WHERE id = '' @ IDVarIdx @
     '' RETURNING id, title, salary, equity, company_handle''"

text \<open>
  \<open>Job.update(ID, data)\<close> gives its result or the error it throws, the caller's
  payload as the call leaves it, and the store as the database leaves it.
\<close>

definition update :: "'s db \<Rightarrow> jsval \<Rightarrow> payload \<Rightarrow> 's \<Rightarrow> (error + job) \<times> payload \<times> 's" where
  "update query ID data store =
     (let data = deleteIdAndHandle data in
      case sqlForPartialUpdate data Map.empty of
        Inl e \<Rightarrow> (Inl e, data, store)
      | Inr sc \<Rightarrow>
          (let IDVarIdx = ''$'' @ show_nat (length (values' sc) + 1);
               (result, store) = query (querySql (setCols sc) IDVarIdx) (values' sc @ [ID]) store
           in case result of
                Inl failure \<Rightarrow> (Inl (DbFailure failure), data, store)
              | Inr rows \<Rightarrow>
                  (case rows of
                     [] \<Rightarrow> (Inl (NotFoundError (''No job: '' @ js_toString ID)), data, store)
                   | job # rest \<Rightarrow> (Inr job, data, store))))"

section \<open>Reading a statement\<close>

text \<open>
  What a statement's text contains is what the database reads in it: the identifiers
  between double quotes (a doubled quote inside stands for one quote) and, outside
  them, the placeholders, a dollar sign followed by digits.
\<close>

datatype token = Ident string | Param nat

datatype lexstate = Plain | InIdent string | Closing string | Dollar | InParam nat

definition isDigit :: "char \<Rightarrow> bool" where
  "isDigit c = (c \<in> set ''0123456789'')"

definition digitVal :: "char \<Rightarrow> nat" where
  "digitVal c =
     (case map_of (zip ''0123456789'' [0, 1, 2, 3, 4, 5, 6, 7, 8, 9]) c of
        Some d \<Rightarrow> d
      | None \<Rightarrow> 0)"

definition start :: "char \<Rightarrow> lexstate" where
  "start c = (if c = dquote then InIdent [] else if c = CHR ''$'' then Dollar else Plain)"

fun step :: "lexstate \<Rightarrow> char \<Rightarrow> token list \<times> lexstate" where
  "step Plain c = ([], start c)"
| "step (InIdent acc) c = (if c = dquote then ([], Closing acc) else ([], InIdent (c # acc)))"
| "step (Closing acc) c =
     (if c = dquote then ([], InIdent (c # acc)) else ([Ident (rev acc)], start c))"
| "step Dollar c = (if isDigit c then ([], InParam (digitVal c)) else ([], start c))"
| "step (InParam n) c =
     (if isDigit c then ([], InParam (10 * n + digitVal c)) else ([Param n], start c))"

fun finish :: "lexstate \<Rightarrow> token list" where
  "finish (Closing acc) = [Ident (rev acc)]"
| "finish (InParam n) = [Param n]"
| "finish s = []"

fun scan :: "lexstate \<Rightarrow> string \<Rightarrow> token list" where
  "scan s [] = finish s"
| "scan s (c # cs) = (let (out, s') = step s c in out @ scan s' cs)"

definition sql_tokens :: "string \<Rightarrow> token list" where
  "sql_tokens sql = scan Plain sql"

definition placeholders :: "string \<Rightarrow> nat list" where
  "placeholders sql = concat (map (\<lambda>t. case t of Param n \<Rightarrow> [n] | Ident c \<Rightarrow> []) (sql_tokens sql))"

definition quotedColumns :: "string \<Rightarrow> string list" where
  "quotedColumns sql = concat (map (\<lambda>t. case t of Ident c \<Rightarrow> [c] | Param n \<Rightarrow> []) (sql_tokens sql))"

section \<open>The table and the database\<close>

text \<open>
  What an update may change in the table: \<open>changesOnly cols before after\<close> holds when
  the table keeps its rows and every row keeps each column that is not among \<open>cols\<close>.
\<close>

definition jobColumns :: "string list" where
  "jobColumns = [''id'', ''title'', ''salary'', ''equity'', ''company_handle'']"

definition column :: "string \<Rightarrow> job \<Rightarrow> jsval" where
  "column c r =
     (if c = ''id'' then Num (id' r)
      else if c = ''title'' then Str (title r)
      else if c = ''salary'' then Num (salary r)
      else if c = ''equity'' then equity r
      else if c = ''company_handle'' then Str (company_handle r)
      else Undefined)"

definition changesOnly :: "string list \<Rightarrow> job list \<Rightarrow> job list \<Rightarrow> bool" where
  "changesOnly cols before after =
     list_all2 (\<lambda>r r'. list_all (\<lambda>c. c \<in> set cols \<or> column c r' = column c r) jobColumns)
       before after"

text \<open>
  A database that answers no row and keeps the statements it was sent, with their
  values.
\<close>

definition recordingDb :: "(string \<times> jsval list) list db" where
  "recordingDb sql params sent = (Inr [], sent @ [(sql, params)])"

text \<open>
  A database over a table of jobs, for the statements of \<open>Job.update\<close>: it reads the
  assignments \<open>"column"=$k\<close> of the statement, gives each row whose id is the last
  bound value the bound values of its assignments, and answers the rows it changed.
\<close>

fun assignments :: "token list \<Rightarrow> (string \<times> nat) list" where
  "assignments (Ident c # Param k # ts) = (c, k) # assignments ts"
| "assignments ts = []"

definition setColumn :: "string \<Rightarrow> jsval \<Rightarrow> job \<Rightarrow> job" where
  "setColumn c v r =
     (if c = ''id'' then (case v of Num n \<Rightarrow> r\<lparr>id' := n\<rparr> | _ \<Rightarrow> r)
      else if c = ''title'' then (case v of Str t \<Rightarrow> r\<lparr>title := t\<rparr> | _ \<Rightarrow> r)
      else if c = ''salary'' then (case v of Num n \<Rightarrow> r\<lparr>salary := n\<rparr> | _ \<Rightarrow> r)
      else if c = ''equity'' then r\<lparr>equity := v\<rparr>
      else if c = ''company_handle'' then (case v of Str h \<Rightarrow> r\<lparr>company_handle := h\<rparr> | _ \<Rightarrow> r)
      else r)"

definition tableDb :: "job list db" where
  "tableDb sql params table =
     (let assign = (\<lambda>(c, k) r. if 1 \<le> k \<and> k \<le> length params
                                then setColumn c (params ! (k - 1)) r else r);
          change = (\<lambda>r. fold assign (assignments (sql_tokens sql)) r);
          hit = (\<lambda>r. params \<noteq> [] \<and> Num (id' r) = last params)
      in (Inr (map change (filter hit table)), map (\<lambda>r. if hit r then change r else r) table))"

text \<open>The payload of the update tests, and a payload whose second key holds quotes.\<close>

definition updateData :: payload where
  "updateData = [(''company_handle'', Str ''new handle''), (''equity'', Str ''0.05''),
     (''salary'', Num 500000), (''title'', Str ''new title'')]"

definition quotingData :: payload where
  "quotingData = [(''company_handle'', Str ''c9''),
     (''title'' @ [dquote] @ ''=$1,'' @ [dquote] @ ''company_handle'', Str ''x'')]"

section \<open>Properties of Job.findAll\<close>

lemma startsWith_prefix: "startsWith s t \<longleftrightarrow> prefix t s"
  by (induction s t rule: startsWith.induct) auto

lemma includes_sublist: "includes_str s t \<longleftrightarrow> sublist t s"
proof (induction s)
  case Nil
  show ?case by simp
next
  case (Cons c s)
  show ?case
    by (simp add: Cons.IH startsWith_prefix sublist_Cons_right)
qed

lemma filter_True_fun [simp]: "filter (\<lambda>x. True) xs = xs"
  by simp

lemma findAll_filters:
  "findAll rows t m h = filter (equityKeeps h) (filter (salaryKeeps m) (filter (titleKeeps t) rows))"
proof -
  have t: "(case t of None \<Rightarrow> rows
            | Some x \<Rightarrow> if truthy (Str x)
                then filter (\<lambda>job. includes_str (toLowerCase (title job)) (toLowerCase x)) rows
                else rows) = filter (titleKeeps t) rows"
    by (cases t) (auto simp: titleKeeps_def intro!: filter_cong)
  have m: "\<And>xs. (case m of None \<Rightarrow> xs
            | Some n \<Rightarrow> if truthy (Num n) then filter (\<lambda>job. salary job \<ge> n) xs else xs)
          = filter (salaryKeeps m) xs"
    by (cases m) (auto simp: salaryKeeps_def intro!: filter_cong)
  have h: "\<And>xs. (case h of None \<Rightarrow> xs
            | Some b \<Rightarrow> if truthy (Bool b) then filter (\<lambda>job. strict_neq (equity job) (Num 0)) xs
                else xs) = filter (equityKeeps h) xs"
    by (cases h) (auto simp: equityKeeps_def intro!: filter_cong)
  show ?thesis
    unfolding findAll_def Let_def t m h ..
qed

lemma keeps_None [simp]:
  "titleKeeps None = (\<lambda>job. True)" "salaryKeeps None = (\<lambda>job. True)"
  "equityKeeps None = (\<lambda>job. True)"
  by (simp_all add: titleKeeps_def salaryKeeps_def equityKeeps_def fun_eq_iff)

lemma findAll_none: "findAll rows None None None = rows"
  by (simp add: findAll_filters)

lemma titleKeeps_sublist:
  "titleKeeps (Some x) job \<longleftrightarrow> sublist (toLowerCase x) (toLowerCase (title job))"
  by (cases x) (simp_all add: titleKeeps_def includes_sublist toLowerCase_def)

lemma findAll_single:
  "findAll [job] t m h = [job] \<longleftrightarrow> titleKeeps t job \<and> salaryKeeps m job \<and> equityKeeps h job"
  by (simp add: findAll_filters)

lemma findAll_hasEquity:
  "findAll rows None None (Some True) = filter (\<lambda>job. equity job \<noteq> Num 0) rows"
  by (simp add: findAll_def strict_neq_def)

text \<open>
  C1. With the equity flag set and true, the filter is meant to keep the jobs that offer
  equity and to leave out a job whose equity is zero. The source compares the column
  with the number zero by \<open>!==\<close>, and the column arrives as text: the job whose equity
  is the text \<open>'0'\<close> is kept.
\<close>

theorem findAll_hasEquity_keeps_zero_text:
  "findAll [testJob1, noEquityJob] None None (Some True) = [testJob1, noEquityJob]"
  by (simp add: findAll_def strict_neq_def testJob1_def noEquityJob_def)






lemma findAll_in_sequence:
  "findAll rows t m h = findAll (findAll (findAll rows t None None) None m None) None None h"
  "findAll rows t m h = findAll (findAll (findAll rows t None None) None None h) None m None"
  "findAll rows t m h = findAll (findAll (findAll rows None m None) t None None) None None h"
  "findAll rows t m h = findAll (findAll (findAll rows None m None) None None h) t None None"
  "findAll rows t m h = findAll (findAll (findAll rows None None h) t None None) None m None"
  "findAll rows t m h = findAll (findAll (findAll rows None None h) None m None) t None None"
  by (simp_all add: findAll_filters; intro filter_cong refl; blast)+

lemma findAll_conjunction:
  "findAll rows t m h =
     filter (\<lambda>job. findAll [job] t None None = [job] \<and> findAll [job] None m None = [job]
                \<and> findAll [job] None None h = [job]) rows"
  unfolding findAll_single
  by (simp add: findAll_filters)

text \<open>
  C7. One call with all the arguments gives what the three filters give one after the
  other, in each of the six orders; with no argument the list comes back as it is; and
  the result holds exactly the jobs that each single filter keeps.
\<close>

theorem findAll_combined:
  "findAll rows t m h = findAll (findAll (findAll rows t None None) None m None) None None h \<and>
   findAll rows t m h = findAll (findAll (findAll rows t None None) None None h) None m None \<and>
   findAll rows t m h = findAll (findAll (findAll rows None m None) t None None) None None h \<and>
   findAll rows t m h = findAll (findAll (findAll rows None m None) None None h) t None None \<and>
   findAll rows t m h = findAll (findAll (findAll rows None None h) t None None) None m None \<and>
   findAll rows t m h = findAll (findAll (findAll rows None None h) None m None) t None None \<and>
   findAll rows None None None = rows \<and>
   findAll rows t m h =
     filter (\<lambda>job. findAll [job] t None None = [job] \<and> findAll [job] None m None = [job]
                \<and> findAll [job] None None h = [job]) rows"
  by (intro conjI findAll_in_sequence findAll_none findAll_conjunction)

theorem findAll_combined_witness:
  "findAll [testJob1, testJob2, testJob3] (Some ''2'') (Some 300000) (Some True) = [testJob3] \<and>
   findAll (findAll (findAll [testJob1, testJob2, testJob3] (Some ''2'') None None)
      None (Some 300000) None) None None (Some True) = [testJob3]"
proof -
  have "findAll [testJob1, testJob2, testJob3] (Some ''2'') (Some 300000) (Some True) = [testJob3]"
    by (simp add: findAll_def strict_neq_def testJob1_def testJob2_def testJob3_def
        toLowerCase_def lowerChar_def)
  with findAll_combined [of "[testJob1, testJob2, testJob3]" "Some ''2''" "Some 300000" "Some True",
      THEN conjunct1]
  show ?thesis by simp
qed

text \<open>
  C8. The result is the input with some jobs left out: it is a subsequence of the rows
  (the jobs kept stand in the order they had) and every job of it is a job of the
  rows, as it was. The callbacks of the source only read the fields of a job, and
  \<open>filter\<close> builds a new array: the model has no write to the rows.
\<close>

theorem findAll_subseq:
  "subseq (findAll rows t m h) rows \<and>
   set (findAll rows t m h) \<subseteq> set rows \<and>
   (\<exists>keep. findAll rows t m h = filter keep rows)"
proof -
  have "\<exists>keep. findAll rows t m h = filter keep rows"
    by (subst findAll_conjunction) blast
  then show ?thesis by auto
qed

theorem findAll_subseq_witness:
  "subseq [testJob2, testJob3] [testJob1, testJob2, testJob3] \<and>
   findAll [testJob1, testJob2, testJob3] None (Some 200000) None = [testJob2, testJob3]"
proof -
  have "findAll [testJob1, testJob2, testJob3] None (Some 200000) None = [testJob2, testJob3]"
    by (simp add: findAll_def testJob1_def testJob2_def testJob3_def)
  with findAll_subseq [of "[testJob1, testJob2, testJob3]" None "Some 200000" None, THEN conjunct1]
  show ?thesis by simp
qed

section \<open>Properties of sqlForPartialUpdate\<close>

lemma below_ten:
  assumes "d < (10 :: nat)"
  obtains "d = 0" | "d = 1" | "d = 2" | "d = 3" | "d = 4" | "d = 5" | "d = 6" | "d = 7"
    | "d = 8" | "d = 9"
  using assms by atomize_elim arith

lemma digitChar_isDigit: "d < 10 \<Longrightarrow> isDigit (digitChar d)"
  by (erule below_ten) (simp_all add: isDigit_def digitChar_def)

lemma digitChar_val: "d < 10 \<Longrightarrow> digitVal (digitChar d) = d"
  by (erule below_ten) (simp_all add: digitVal_def digitChar_def)

lemma scan_Dollar_show_nat: "scan Dollar (show_nat k @ rest) = scan (InParam k) rest"
proof (induction k arbitrary: rest rule: show_nat.induct)
  case (1 n)
  show ?case
  proof (cases "n < 10")
    case True
    then show ?thesis
      by (simp add: show_nat.simps [of n] digitChar_isDigit digitChar_val)
  next
    case False
    have "scan Dollar (show_nat n @ rest)
        = scan Dollar (show_nat (n div 10) @ (digitChar (n mod 10) # rest))"
      using False by (subst show_nat.simps) simp
    also have "\<dots> = scan (InParam (n div 10)) (digitChar (n mod 10) # rest)"
      using False by (rule "1.IH")
    also have "\<dots> = scan (InParam n) rest"
      by (simp add: digitChar_isDigit digitChar_val)
    finally show ?thesis .
  qed
qed

lemma scan_InIdent:
  "dquote \<notin> set col \<Longrightarrow>
   scan (InIdent acc) (col @ [dquote] @ ''=$'' @ rest) = Ident (rev acc @ col) # scan Dollar rest"
  by (induction col arbitrary: acc) (auto simp: start_def dquote_def)

lemma scan_fragment:
  "dquote \<notin> set (columnName cm key) \<Longrightarrow>
   scan Plain (fragment cm key idx @ rest) = Ident (columnName cm key) # scan (InParam (idx + 1)) rest"
  using scan_InIdent [of "columnName cm key" "[]" "show_nat (idx + 1) @ rest"]
  by (simp add: fragment_def start_def scan_Dollar_show_nat)

lemma scan_InParam_sep:
  "scan (InParam n) ('', '' @ rest) = Param n # scan Plain rest"
  "scan (InParam n) ('' '' @ rest) = Param n # scan Plain rest"
  "scan (InParam n) [] = [Param n]"
  by (simp_all add: isDigit_def start_def dquote_def)

lemma zip_upt_Cons:
  "zip (k # ks) [Suc idx ..< Suc (idx + length (k # ks))] =
     (k, Suc idx) # zip ks [Suc (Suc idx) ..< Suc (Suc idx + length ks)]"
proof -
  have "[Suc idx ..< Suc (idx + length (k # ks))] =
          Suc idx # [Suc (Suc idx) ..< Suc (idx + length (k # ks))]"
    by (rule upt_conv_Cons) simp
  then show ?thesis
    by (simp del: upt_Suc)
qed

lemma scan_fragments:
  assumes "keys \<noteq> []" "\<forall>k \<in> set keys. dquote \<notin> set (columnName cm k)"
    and "\<And>n. scan (InParam n) rest = Param n # after"
  shows "scan Plain (joinStrings '', '' (fragments cm keys idx) @ rest) =
           concat (map (\<lambda>(k, i). [Ident (columnName cm k), Param i])
                     (zip keys [Suc idx ..< Suc (idx + length keys)])) @ after"
  using assms(1,2)
proof (induction keys arbitrary: idx rule: list_nonempty_induct)
  case (single k)
  then show ?case by (simp add: scan_fragment assms(3))
next
  case (cons k ks)
  obtain k' ks' where ks: "ks = k' # ks'" using cons.hyps by (cases ks) auto
  have k: "dquote \<notin> set (columnName cm k)" using cons.prems by simp
  have "scan Plain (joinStrings '', '' (fragments cm (k # ks) idx) @ rest)
      = scan Plain (fragment cm k idx @ ('', '' @ joinStrings '', '' (fragments cm ks (idx + 1)) @ rest))"
    by (simp add: ks)
  also have "\<dots> = Ident (columnName cm k) # Param (idx + 1) #
       scan Plain (joinStrings '', '' (fragments cm ks (idx + 1)) @ rest)"
    by (simp only: scan_fragment [OF k] scan_InParam_sep)
  also have "scan Plain (joinStrings '', '' (fragments cm ks (idx + 1)) @ rest) =
      concat (map (\<lambda>(k, i). [Ident (columnName cm k), Param i])
                     (zip ks [Suc (idx + 1) ..< Suc (idx + 1 + length ks)])) @ after"
    using cons.prems by (intro cons.IH) simp
  finally show ?case
    by (simp only: zip_upt_Cons) simp
qed

lemma params_of_pairs:
  "length is = length ks \<Longrightarrow>
   concat (map (\<lambda>t. case t of Param n \<Rightarrow> [n] | Ident c \<Rightarrow> [])
     (concat (map (\<lambda>(k, i). [Ident (f k), Param i]) (zip ks is)))) = is"
  by (induction ks "is" rule: list_induct2') simp_all

lemma idents_of_pairs:
  "length is = length ks \<Longrightarrow>
   concat (map (\<lambda>t. case t of Ident c \<Rightarrow> [c] | Param n \<Rightarrow> [])
     (concat (map (\<lambda>(k, i). [Ident (f k), Param i]) (zip ks is)))) = map f ks"
  by (induction ks "is" rule: list_induct2') simp_all

lemma sqlForPartialUpdate_tokens:
  assumes "sqlForPartialUpdate payload cm = Inr sc"
    and "\<forall>k \<in> set (map fst payload). dquote \<notin> set (columnName cm k)"
  shows "sql_tokens (setCols sc) =
           concat (map (\<lambda>(k, i). [Ident (columnName cm k), Param i])
                     (zip (map fst payload) [1 ..< Suc (length payload)]))"
proof -
  have ne: "map fst payload \<noteq> []" and sc: "setCols sc = joinStrings '', '' (fragments cm (map fst payload) 0)"
    using assms(1) by (auto simp: sqlForPartialUpdate_def split: if_splits)
  show ?thesis
    using scan_fragments [OF ne assms(2), of "[]" "[]" 0]
    by (simp add: sql_tokens_def sc)
qed

lemma fragments_zip:
  "fragments cm keys idx =
     map (\<lambda>(k, n). [dquote] @ columnName cm k @ [dquote] @ ''=$'' @ show_nat n)
       (zip keys [Suc idx ..< Suc (idx + length keys)])"
proof (induction keys arbitrary: idx)
  case Nil
  show ?case by simp
next
  case (Cons k keys)
  show ?case
    by (simp only: zip_upt_Cons fragments.simps Cons.IH) (simp add: fragment_def)
qed

lemma fragments_nth:
  "i < length keys \<Longrightarrow>
   fragments cm keys idx ! i =
     [dquote] @ columnName cm (keys ! i) @ [dquote] @ ''=$'' @ show_nat (idx + i + 1)"
proof (induction keys arbitrary: idx i)
  case Nil
  then show ?case by simp
next
  case (Cons k keys)
  show ?case
  proof (cases i)
    case 0
    then show ?thesis by (simp add: fragment_def)
  next
    case (Suc j)
    then show ?thesis
      using Cons.prems Cons.IH [of j "idx + 1"] by (simp)
  qed
qed

lemma length_fragments: "length (fragments cm keys idx) = length keys"
  by (induction keys arbitrary: idx) simp_all

text \<open>
  C2, as stated: an empty payload fails with the message \<open>no data\<close>. The test of the
  helper asks for a message that holds \<open>No data\<close>, with a capital letter.
\<close>

theorem sqlForPartialUpdate_empty_counterexample:
  "sqlForPartialUpdate [] Map.empty \<noteq> Inl (BadRequestError ''no data'')"
  by (simp add: sqlForPartialUpdate_def)

text \<open>
  C2, amended: whatever the column map, an empty payload fails with the
  BadRequestError \<open>No data\<close> and gives no clause and no values; \<open>Job.update\<close> with
  an empty payload throws this error and leaves the store as it was, whatever the
  database would do with a statement.
\<close>

theorem sqlForPartialUpdate_empty:
  "sqlForPartialUpdate [] jsToSql = Inl (BadRequestError ''No data'') \<and>
   (\<forall>sc. sqlForPartialUpdate [] jsToSql \<noteq> Inr sc) \<and>
   update query ID [] store = (Inl (BadRequestError ''No data''), [], store)"
  by (simp add: sqlForPartialUpdate_def update_def deleteIdAndHandle_def js_get_def)

theorem sqlForPartialUpdate_empty_witness:
  "sqlForPartialUpdate [] [''name'' \<mapsto> ''firstName''] = Inl (BadRequestError ''No data'')"
  using sqlForPartialUpdate_empty [of "[''name'' \<mapsto> ''firstName'']", THEN conjunct1] by simp






section \<open>Properties of Job.update\<close>

lemma update_Inl:
  "sqlForPartialUpdate (deleteIdAndHandle data) Map.empty = Inl e \<Longrightarrow>
   update query ID data store = (Inl e, deleteIdAndHandle data, store)"
  by (simp add: update_def)

lemma update_Inr:
  "sqlForPartialUpdate (deleteIdAndHandle data) Map.empty = Inr sc \<Longrightarrow>
   update query ID data store =
     (case fst (query (querySql (setCols sc) (''$'' @ show_nat (length (values' sc) + 1)))
                  (values' sc @ [ID]) store) of
        Inl failure \<Rightarrow> Inl (DbFailure failure)
      | Inr [] \<Rightarrow> Inl (NotFoundError (''No job: '' @ js_toString ID))
      | Inr (job # rest) \<Rightarrow> Inr job,
      deleteIdAndHandle data,
      snd (query (querySql (setCols sc) (''$'' @ show_nat (length (values' sc) + 1)))
             (values' sc @ [ID]) store))"
  by (simp add: update_def Let_def split: prod.split sum.split list.split)

lemma sqlForPartialUpdate_nonempty:
  "payload \<noteq> [] \<Longrightarrow>
   sqlForPartialUpdate payload cm =
     Inr \<lparr>setCols = joinStrings '', '' (fragments cm (map fst payload) 0),
          values' = map snd payload\<rparr>"
  by (simp add: sqlForPartialUpdate_def)

lemma columnName_empty [simp]: "columnName Map.empty k = k"
  by (simp add: columnName_def)

lemma scan_where:
  "scan (InParam m) ('' WHERE id = '' @ (''$'' @ show_nat k) @
      '' RETURNING id, title, salary, equity, company_handle'') = [Param m, Param k]"
  by (simp add: start_def dquote_def isDigit_def scan_Dollar_show_nat)

lemma querySql_tokens:
  assumes "keys \<noteq> []" "\<forall>k \<in> set keys. dquote \<notin> set (columnName cm k)"
  shows "sql_tokens (querySql (joinStrings '', '' (fragments cm keys 0)) (''$'' @ show_nat n)) =
           concat (map (\<lambda>(k, i). [Ident (columnName cm k), Param i])
                     (zip keys [1 ..< Suc (length keys)])) @ [Param n]"
proof -
  have "sql_tokens (querySql (joinStrings '', '' (fragments cm keys 0)) (''$'' @ show_nat n)) =
      scan Plain (joinStrings '', '' (fragments cm keys 0) @
        ('' WHERE id = '' @ (''$'' @ show_nat n) @
          '' RETURNING id, title, salary, equity, company_handle''))"
    by (simp add: sql_tokens_def querySql_def start_def dquote_def)
  also have "\<dots> = concat (map (\<lambda>(k, i). [Ident (columnName cm k), Param i])
                     (zip keys [Suc 0 ..< Suc (0 + length keys)])) @ [Param n]"
    by (rule scan_fragments [OF assms]) (simp only: scan_where)
  finally show ?thesis by simp
qed

lemma js_get_delete_other:
  "k \<noteq> key \<Longrightarrow> js_get (js_delete key obj) k = js_get obj k"
  by (induction obj) (auto simp: js_get_def js_delete_def)

lemma keys_js_delete: "set (map fst (js_delete key obj)) = set (map fst obj) - {key}"
  by (auto simp: js_delete_def)

lemma keys_deleteIdAndHandle:
  "set (map fst (deleteIdAndHandle data)) \<subseteq> set (map fst data)"
  "truthy (js_get data ''id'') \<Longrightarrow> ''id'' \<notin> set (map fst (deleteIdAndHandle data))"
  "truthy (js_get data ''company_handle'') \<Longrightarrow>
     ''company_handle'' \<notin> set (map fst (deleteIdAndHandle data))"
  by (auto simp: deleteIdAndHandle_def Let_def keys_js_delete js_get_delete_other
      simp del: set_map)

lemma list_all2_same_map:
  "list_all2 (\<lambda>r r'. f r' = f r) before after \<Longrightarrow> map f after = map f before"
  by (induction rule: list_all2_induct) simp_all

lemma changesOnly_id:
  assumes "changesOnly cols before after" "''id'' \<notin> set cols"
  shows "map id' after = map id' before"
proof -
  have "list_all2 (\<lambda>r r'. id' r' = id' r) before after"
    using assms(1) unfolding changesOnly_def
    by (rule list_all2_mono) (use assms(2) in \<open>simp add: jobColumns_def column_def\<close>)
  then show ?thesis by (rule list_all2_same_map)
qed

lemma changesOnly_company_handle:
  assumes "changesOnly cols before after" "''company_handle'' \<notin> set cols"
  shows "map company_handle after = map company_handle before"
proof -
  have "list_all2 (\<lambda>r r'. company_handle r' = company_handle r) before after"
    using assms(1) unfolding changesOnly_def
    by (rule list_all2_mono) (use assms(2) in \<open>simp add: jobColumns_def column_def\<close>)
  then show ?thesis by (rule list_all2_same_map)
qed

text \<open>
  C9, as stated: for every non-empty payload update sends a statement that binds the
  identifier after the values of the SET clause, and throws NotFoundError exactly when
  the statement answers no row. The payload \<open>{id: 5}\<close> is not empty; update deletes
  its only entry, the helper finds nothing to set, and update throws BadRequestError:
  no statement reaches the database, which would have answered no row.
\<close>

theorem update_statement_counterexample:
  "[(''id'', Num 5)] \<noteq> ([] :: payload) \<and>
   update recordingDb (Num 1) [(''id'', Num 5)] [] = (Inl (BadRequestError ''No data''), [], [])"
  by code_simp

text \<open>
  C9, amended: for every identifier and every payload that is not empty once update
  has deleted its truthy id and company_handle entries, update sends one statement:
  the SET clause of the remaining \<open>n\<close> entries, then \<open>WHERE id = $(n + 1)\<close>, with the
  \<open>n\<close> values followed by the identifier as the bound values (when no key holds a
  double quote, the statement's placeholders are exactly \<open>$1\<close> to \<open>$(n + 1)\<close>). The
  store is what the database leaves. update throws NotFoundError exactly when the
  statement answers no row, and returns a job exactly when it is the first row of the
  answer.
\<close>

theorem update_statement:
  assumes "deleteIdAndHandle data \<noteq> []"
  shows "\<exists>sc. sqlForPartialUpdate (deleteIdAndHandle data) Map.empty = Inr sc \<and>
     (let n = length (values' sc);
          sql = querySql (setCols sc) (''$'' @ show_nat (n + 1));
          params = values' sc @ [ID];
          answer = query sql params store;
          outcome = update query ID data store
      in n = length (deleteIdAndHandle data) \<and>
         length params = n + 1 \<and> params ! n = ID \<and> last params = ID \<and>
         snd (snd outcome) = snd answer \<and>
         (fst answer = Inr [] \<longrightarrow>
            fst outcome = Inl (NotFoundError (''No job: '' @ js_toString ID))) \<and>
         (\<forall>m. fst outcome = Inl (NotFoundError m) \<longrightarrow> fst answer = Inr []) \<and>
         (\<forall>job rest. fst answer = Inr (job # rest) \<longrightarrow> fst outcome = Inr job) \<and>
         (\<forall>job. fst outcome = Inr job \<longrightarrow> (\<exists>rest. fst answer = Inr (job # rest))) \<and>
         ((\<forall>k \<in> set (map fst (deleteIdAndHandle data)). dquote \<notin> set k) \<longrightarrow>
            placeholders sql = [1 ..< Suc (Suc n)]))"
proof -
  define left where "left = deleteIdAndHandle data"
  define sc where "sc = \<lparr>setCols = joinStrings '', '' (fragments Map.empty (map fst left) 0),
    values' = map snd left\<rparr>"
  have ne: "left \<noteq> []" using assms by (simp add: left_def)
  have res: "sqlForPartialUpdate (deleteIdAndHandle data) Map.empty = Inr sc"
    using sqlForPartialUpdate_nonempty [OF ne] by (simp add: sc_def left_def)
  have n: "length (values' sc) = length left" by (simp add: sc_def)
  have ph: "placeholders (querySql (setCols sc) (''$'' @ show_nat (length left + 1))) =
      [1 ..< Suc (Suc (length left))]" if nq: "\<forall>k \<in> set (map fst left). dquote \<notin> set k"
  proof -
    have keys: "map fst left \<noteq> []" using ne by simp
    have nq': "\<forall>k \<in> set (map fst left). dquote \<notin> set (columnName Map.empty k)"
      using nq by simp
    have len: "length [1 ..< Suc (length left)] = length (map fst left)"
      by (simp del: upt_Suc)
    show ?thesis
      unfolding placeholders_def sc_def setClause.simps querySql_tokens [OF keys nq']
      using params_of_pairs [OF len, of "columnName Map.empty"]
      by (simp del: upt_Suc) simp
  qed
  show ?thesis
    apply (rule exI [of _ sc])
    apply (rule conjI [OF res])
    unfolding Let_def update_Inr [OF res] n left_def [symmetric]
    using ph by (auto simp: sc_def nth_append split: sum.splits list.splits)
qed

lemma deleteIdAndHandle_updateData:
  "deleteIdAndHandle updateData =
     [(''equity'', Str ''0.05''), (''salary'', Num 500000), (''title'', Str ''new title'')]"
  by (simp add: deleteIdAndHandle_def updateData_def js_get_def js_delete_def)

text \<open>
  The two update tests of the model against the table database: a missing id, and the
  row of id 1, whose company_handle stays \<open>c1\<close> although the payload names another.
\<close>

lemma update_tableDb_missing:
  "update tableDb (Num (- 1)) updateData [testJob1, testJob2, testJob3] =
     (Inl (NotFoundError ''No job: -1''),
      [(''equity'', Str ''0.05''), (''salary'', Num 500000), (''title'', Str ''new title'')],
      [testJob1, testJob2, testJob3])"
  by code_simp

lemma update_tableDb_works:
  "update tableDb (Num 1) updateData [testJob1, testJob2, testJob3] =
     (Inr \<lparr>id' = 1, title = ''new title'', salary = 500000, equity = Str ''0.05'',
            company_handle = ''c1''\<rparr>,
      [(''equity'', Str ''0.05''), (''salary'', Num 500000), (''title'', Str ''new title'')],
      [\<lparr>id' = 1, title = ''new title'', salary = 500000, equity = Str ''0.05'',
          company_handle = ''c1''\<rparr>, testJob2, testJob3])"
  by code_simp

theorem update_statement_witness:
  "deleteIdAndHandle updateData \<noteq> [] \<and>
   fst (tableDb
     (querySql ([dquote] @ ''equity'' @ [dquote] @ ''=$1, '' @ [dquote] @ ''salary'' @ [dquote] @ ''=$2, ''
        @ [dquote] @ ''title'' @ [dquote] @ ''=$3'') ''$4'')
     [Str ''0.05'', Num 500000, Str ''new title'', Num (- 1)]
     [testJob1, testJob2, testJob3]) = Inr [] \<and>
   fst (update tableDb (Num (- 1)) updateData [testJob1, testJob2, testJob3]) =
     Inl (NotFoundError ''No job: -1'')"
proof -
  define SC where "SC = \<lparr>setCols = [dquote] @ ''equity'' @ [dquote] @ ''=$1, '' @ [dquote] @ ''salary''
      @ [dquote] @ ''=$2, '' @ [dquote] @ ''title'' @ [dquote] @ ''=$3'',
    values' = [Str ''0.05'', Num 500000, Str ''new title'']\<rparr>"
  have ne: "deleteIdAndHandle updateData \<noteq> []"
    by (simp add: deleteIdAndHandle_updateData)
  have ev: "sqlForPartialUpdate (deleteIdAndHandle updateData) Map.empty = Inr SC"
    unfolding SC_def by code_simp
  have sql: "querySql (setCols SC) (''$'' @ show_nat (length (values' SC) + 1)) =
      querySql ([dquote] @ ''equity'' @ [dquote] @ ''=$1, '' @ [dquote] @ ''salary'' @ [dquote] @ ''=$2, ''
        @ [dquote] @ ''title'' @ [dquote] @ ''=$3'') ''$4''"
    unfolding SC_def by code_simp
  have params: "values' SC @ [Num (- 1)] = [Str ''0.05'', Num 500000, Str ''new title'', Num (- 1)]"
    by (simp add: SC_def)
  have answer: "fst (tableDb
     (querySql ([dquote] @ ''equity'' @ [dquote] @ ''=$1, '' @ [dquote] @ ''salary'' @ [dquote] @ ''=$2, ''
        @ [dquote] @ ''title'' @ [dquote] @ ''=$3'') ''$4'')
     [Str ''0.05'', Num 500000, Str ''new title'', Num (- 1)]
     [testJob1, testJob2, testJob3]) = Inr []"
    by code_simp
  from update_statement [OF ne, of "Num (- 1)" tableDb "[testJob1, testJob2, testJob3]"]
  obtain sc where sc: "sqlForPartialUpdate (deleteIdAndHandle updateData) Map.empty = Inr sc"
    and "fst (tableDb (querySql (setCols sc) (''$'' @ show_nat (length (values' sc) + 1)))
           (values' sc @ [Num (- 1)]) [testJob1, testJob2, testJob3]) = Inr [] \<longrightarrow>
         fst (update tableDb (Num (- 1)) updateData [testJob1, testJob2, testJob3]) =
           Inl (NotFoundError (''No job: '' @ js_toString (Num (- 1))))"
    unfolding Let_def by blast
  moreover have "sc = SC" using sc ev by simp
  ultimately have "fst (update tableDb (Num (- 1)) updateData [testJob1, testJob2, testJob3]) =
      Inl (NotFoundError (''No job: '' @ js_toString (Num (- 1))))"
    using answer by (simp only: sql params)
  moreover have "''No job: '' @ js_toString (Num (- 1)) = ''No job: -1''"
    by code_simp
  ultimately show ?thesis
    using ne answer by simp
qed




end
